theory Spec2Isabelle
  imports Main
begin

section \<open>Python values, errors and text\<close>

text \<open>
  The program is \<^verbatim>\<open>src/main.py\<close>: a Qt table model (\<^verbatim>\<open>PandasModel\<close>) over a pandas
  data frame and the statistics tab of \<^verbatim>\<open>DataApp\<close> that feeds it.

  A raised exception is the \<open>Inl\<close> branch of a result. Only the two exceptions that the
  modelled calls can raise occur: \<^verbatim>\<open>IndexError\<close> from positional indexing
  (\<^verbatim>\<open>iloc\<close>, \<^verbatim>\<open>Index.__getitem__\<close>) and \<^verbatim>\<open>ValueError\<close> from \<^verbatim>\<open>describe()\<close>.
\<close>

datatype error = IndexError | ValueError

type_synonym 'a result = "error + 'a"

text \<open>
  A cell or a label is an integer, a float or a text. Floating point is not modelled:
  the type \<open>'f\<close> stands for the floats, and the float operations the program relies on
  (\<^verbatim>\<open>str\<close> of a float, the summary statistics of \<^verbatim>\<open>describe()\<close>, \<^verbatim>\<open>round\<close> and the
  conversion of an integer to a float) are the fields of a parameter.
\<close>

datatype 'f scalar = IntV int | FloatV 'f | StrV string

record 'f float_ops =
  float_str :: "'f \<Rightarrow> string"
  summary :: "string \<Rightarrow> 'f scalar list \<Rightarrow> 'f"
  float_round :: "int \<Rightarrow> 'f \<Rightarrow> 'f"
  float_of_int :: "int \<Rightarrow> 'f"

definition digit_char :: "nat \<Rightarrow> char" where
  "digit_char d = ''0123456789'' ! d"

fun str_nat :: "nat \<Rightarrow> string" where
  "str_nat n = (if n < 10 then [digit_char n] else str_nat (n div 10) @ [digit_char (n mod 10)])"

declare str_nat.simps [simp del]

definition str_int :: "int \<Rightarrow> string" where
  "str_int i = (if i < 0 then CHR ''-'' # str_nat (nat (- i)) else str_nat (nat i))"

text \<open>Python's \<^verbatim>\<open>str(value)\<close> on a scalar.\<close>

fun py_str :: "'f float_ops \<Rightarrow> 'f scalar \<Rightarrow> string" where
  "py_str F (IntV i) = str_int i"
| "py_str F (FloatV x) = float_str F x"
| "py_str F (StrV s) = s"

section \<open>The pandas data frame\<close>

text \<open>
  A frame has its column labels (\<^verbatim>\<open>df.columns\<close>), its row labels (\<^verbatim>\<open>df.index\<close>), the
  dtype of each column (\<^verbatim>\<open>df.dtypes\<close>) and one list of values per column. pandas keeps
  every column as long as the index; the record does not, so \<open>well_formed\<close> states it.

  The dtype is an attribute of the column, not a function of its values. The dtypes are
  the three that columns of integers, floats and texts have: \<^verbatim>\<open>int64\<close>, \<^verbatim>\<open>float64\<close> and
  \<^verbatim>\<open>object\<close>. An \<^verbatim>\<open>int64\<close> column holds integers of 64 bits, a \<^verbatim>\<open>float64\<close> column holds
  floats, an \<^verbatim>\<open>object\<close> column holds any Python value (a text, or an integer of any
  size); \<open>well_typed\<close> states it.
\<close>

datatype dtype = int64 | float64 | object

record 'f frame =
  columns :: "'f scalar list"
  index :: "'f scalar list"
  dtypes :: "dtype list"
  series :: "'f scalar list list"

fun has_dtype :: "dtype \<Rightarrow> 'f scalar \<Rightarrow> bool" where
  "has_dtype int64 (IntV i) \<longleftrightarrow> - (2 ^ 63) \<le> i \<and> i < 2 ^ 63"
| "has_dtype int64 v \<longleftrightarrow> False"
| "has_dtype float64 (FloatV x) \<longleftrightarrow> True"
| "has_dtype float64 v \<longleftrightarrow> False"
| "has_dtype object v \<longleftrightarrow> True"

definition well_typed :: "'f frame \<Rightarrow> bool" where
  "well_typed d \<longleftrightarrow> list_all2 (\<lambda>t c. list_all (has_dtype t) c) (dtypes d) (series d)"

definition well_formed :: "'f frame \<Rightarrow> bool" where
  "well_formed d \<longleftrightarrow>
     length (series d) = length (columns d) \<and>
     list_all (\<lambda>c. length c = length (index d)) (series d)"

text \<open>\<^verbatim>\<open>df.shape\<close>: the lengths of the two axes.\<close>

definition shape :: "'f frame \<Rightarrow> int \<times> int" where
  "shape d = (int (length (index d)), int (length (columns d)))"

text \<open>\<^verbatim>\<open>pd.DataFrame()\<close>, the default argument of \<^verbatim>\<open>PandasModel.__init__\<close>.\<close>

definition DataFrame_empty :: "'f frame" where
  "DataFrame_empty = \<lparr>columns = [], index = [], dtypes = [], series = []\<rparr>"

text \<open>
  \<^verbatim>\<open>Index.__getitem__\<close> with an integer: a negative position counts from the end, a
  position outside \<open>[-n, n)\<close> raises \<^verbatim>\<open>IndexError\<close>.
\<close>

definition Index_getitem :: "'a list \<Rightarrow> int \<Rightarrow> 'a result" where
  "Index_getitem labels key =
     (let n = int (length labels) in
      if key \<ge> n \<or> key < - n then Inl IndexError
      else Inr (labels ! nat (if key < 0 then key + n else key)))"

text \<open>
  \<^verbatim>\<open>df.iloc[r, c]\<close>: each position is validated against its axis as in
  \<^verbatim>\<open>Index.__getitem__\<close>, then the value is read.
\<close>

definition iloc :: "'f frame \<Rightarrow> int \<Rightarrow> int \<Rightarrow> 'f scalar result" where
  "iloc d r c =
     (let nr = fst (shape d); nc = snd (shape d) in
      if r \<ge> nr \<or> r < - nr then Inl IndexError
      else if c \<ge> nc \<or> c < - nc then Inl IndexError
      else Inr (series d ! nat (if c < 0 then c + nc else c)
                         ! nat (if r < 0 then r + nr else r)))"

section \<open>Qt: model indexes, roles, orientations\<close>

text \<open>
  A \<^verbatim>\<open>QModelIndex\<close> carries a row, a column and a pointer to its model (here: whether the
  pointer is set). \<^verbatim>\<open>QModelIndex()\<close> is the invalid index \<open>(-1, -1, null)\<close>.
\<close>

record QModelIndex =
  row :: int
  column :: int
  model :: bool

definition isValid :: "QModelIndex \<Rightarrow> bool" where
  "isValid i \<longleftrightarrow> row i \<ge> 0 \<and> column i \<ge> 0 \<and> model i"

definition QModelIndex_invalid :: QModelIndex where
  "QModelIndex_invalid = \<lparr>row = - 1, column = - 1, model = False\<rparr>"

text \<open>\<^verbatim>\<open>QAbstractItemModel.createIndex(row, column)\<close>: an index of this model, unchecked.\<close>

definition createIndex :: "int \<Rightarrow> int \<Rightarrow> QModelIndex" where
  "createIndex r c = \<lparr>row = r, column = c, model = True\<rparr>"

text \<open>\<^verbatim>\<open>Qt.ItemDataRole\<close> and \<^verbatim>\<open>Qt.Orientation\<close> by their integer values.\<close>

definition DisplayRole :: int where "DisplayRole = 0"
definition DecorationRole :: int where "DecorationRole = 1"
definition EditRole :: int where "EditRole = 2"
definition ToolTipRole :: int where "ToolTipRole = 3"

definition Horizontal :: int where "Horizontal = 1"
definition Vertical :: int where "Vertical = 2"

section \<open>PandasModel\<close>

text \<open>
  The model object holds the frame in \<^verbatim>\<open>self._df\<close>. A method takes \<open>self\<close> and returns its
  result together with \<open>self\<close> after the call. The \<^verbatim>\<open>parent\<close> argument of \<^verbatim>\<open>rowCount\<close> and
  \<^verbatim>\<open>columnCount\<close> is unused in the source and left out.
\<close>

record 'f PandasModel =
  self_df :: "'f frame"

definition PandasModel_init :: "'f frame \<Rightarrow> 'f PandasModel result" where
  "PandasModel_init d = Inr \<lparr>self_df = d\<rparr>"

definition rowCount :: "'f PandasModel \<Rightarrow> int result \<times> 'f PandasModel" where
  "rowCount self = (Inr (fst (shape (self_df self))), self)"

definition columnCount :: "'f PandasModel \<Rightarrow> int result \<times> 'f PandasModel" where
  "columnCount self = (Inr (snd (shape (self_df self))), self)"

definition data ::
  "'f float_ops \<Rightarrow> QModelIndex \<Rightarrow> int \<Rightarrow> 'f PandasModel \<Rightarrow> string option result \<times> 'f PandasModel"
where
  "data F idx role self =
     (if \<not> isValid idx then (Inr None, self)
      else if role = DisplayRole then
        (case iloc (self_df self) (row idx) (column idx) of
           Inl e \<Rightarrow> (Inl e, self)
         | Inr v \<Rightarrow> (Inr (Some (py_str F v)), self))
      else (Inr None, self))"

definition headerData ::
  "'f float_ops \<Rightarrow> int \<Rightarrow> int \<Rightarrow> int \<Rightarrow> 'f PandasModel \<Rightarrow> string option result \<times> 'f PandasModel"
where
  "headerData F section orientation role self =
     (if role = DisplayRole then
        if orientation = Horizontal then
          (case Index_getitem (columns (self_df self)) section of
             Inl e \<Rightarrow> (Inl e, self)
           | Inr l \<Rightarrow> (Inr (Some (py_str F l)), self))
        else if orientation = Vertical then
          (case Index_getitem (index (self_df self)) section of
             Inl e \<Rightarrow> (Inl e, self)
           | Inr l \<Rightarrow> (Inr (Some (py_str F l)), self))
        else (Inr None, self)
      else (Inr None, self))"

text \<open>
  \<^verbatim>\<open>PandasModel\<close> inherits \<^verbatim>\<open>index(row, column)\<close> from \<^verbatim>\<open>QAbstractTableModel\<close>: it checks
  the position with \<^verbatim>\<open>hasIndex\<close> against \<^verbatim>\<open>rowCount()\<close> and \<^verbatim>\<open>columnCount()\<close> and returns
  the invalid index when the check fails.
\<close>

definition hasIndex :: "int \<Rightarrow> int \<Rightarrow> 'f PandasModel \<Rightarrow> bool" where
  "hasIndex r c self =
     (if r < 0 \<or> c < 0 then False
      else case (fst (rowCount self), fst (columnCount self)) of
             (Inr nr, Inr nc) \<Rightarrow> r < nr \<and> c < nc
           | _ \<Rightarrow> False)"

definition model_index :: "int \<Rightarrow> int \<Rightarrow> 'f PandasModel \<Rightarrow> QModelIndex" where
  "model_index r c self = (if hasIndex r c self then createIndex r c else QModelIndex_invalid)"

section \<open>The statistics tab of DataApp\<close>

text \<open>
  \<^verbatim>\<open>df.select_dtypes(include='number')\<close> keeps the columns whose dtype is numeric, with
  their dtypes, and all the rows.
\<close>

fun is_number :: "dtype \<Rightarrow> bool" where
  "is_number int64 \<longleftrightarrow> True"
| "is_number float64 \<longleftrightarrow> True"
| "is_number object \<longleftrightarrow> False"

definition select_dtypes_number :: "'f frame \<Rightarrow> 'f frame" where
  "select_dtypes_number d =
     (let keep = filter (\<lambda>(name, t, c). is_number t)
                   (zip (columns d) (zip (dtypes d) (series d))) in
      \<lparr>columns = map fst keep, index = index d,
       dtypes = map (\<lambda>(name, t, c). t) keep, series = map (\<lambda>(name, t, c). c) keep\<rparr>)"

text \<open>
  \<^verbatim>\<open>df.describe()\<close> on a frame of numeric columns, which is what \<^verbatim>\<open>select_dtypes\<close>
  returns: one row per statistic, one \<^verbatim>\<open>float64\<close> column per column of the frame. pandas
  raises \<^verbatim>\<open>ValueError\<close> ("Cannot describe a DataFrame without columns") on a frame that
  has no column.
\<close>

definition stat_names :: "string list" where
  "stat_names = [''count'', ''mean'', ''std'', ''min'', ''25%'', ''50%'', ''75%'', ''max'']"

definition describe :: "'f float_ops \<Rightarrow> 'f frame \<Rightarrow> 'f frame result" where
  "describe F d =
     (if columns d = [] then Inl ValueError
      else Inr \<lparr>columns = columns d,
                index = map StrV stat_names,
                dtypes = map (\<lambda>c. float64) (series d),
                series = map (\<lambda>c. map (\<lambda>s. FloatV (summary F s c)) stat_names) (series d)\<rparr>)"

text \<open>
  \<^verbatim>\<open>df.transpose()\<close>: the axes change places; column \<open>r\<close> of the result is row \<open>r\<close>. Every
  column of the result has the common dtype of the columns of the frame: \<^verbatim>\<open>object\<close> when
  one of them is \<^verbatim>\<open>object\<close>, \<^verbatim>\<open>int64\<close> when all are \<^verbatim>\<open>int64\<close>, \<^verbatim>\<open>float64\<close> otherwise (also for
  a frame without columns), with the integers converted to floats.
\<close>

definition common_dtype :: "dtype list \<Rightarrow> dtype" where
  "common_dtype ts =
     (if object \<in> set ts then object
      else if ts \<noteq> [] \<and> list_all (\<lambda>t. t = int64) ts then int64
      else float64)"

fun astype :: "'f float_ops \<Rightarrow> dtype \<Rightarrow> 'f scalar \<Rightarrow> 'f scalar" where
  "astype F float64 (IntV i) = FloatV (float_of_int F i)"
| "astype F t v = v"

definition transpose_frame :: "'f float_ops \<Rightarrow> 'f frame \<Rightarrow> 'f frame" where
  "transpose_frame F d =
     (let t = common_dtype (dtypes d) in
      \<lparr>columns = index d,
       index = columns d,
       dtypes = replicate (length (index d)) t,
       series = map (\<lambda>r. map (\<lambda>c. astype F t (c ! r)) (series d)) [0..<length (index d)]\<rparr>)"

text \<open>
  \<^verbatim>\<open>df.round(decimals)\<close> with \<open>decimals \<ge> 0\<close>: the floats of the \<^verbatim>\<open>float64\<close> columns are
  rounded, the other columns are left as they are.
\<close>

definition round_frame :: "'f float_ops \<Rightarrow> int \<Rightarrow> 'f frame \<Rightarrow> 'f frame" where
  "round_frame F decimals d =
     d\<lparr>series :=
         map (\<lambda>(t, c).
                if t = float64
                then map (\<lambda>v. case v of FloatV x \<Rightarrow> FloatV (float_round F decimals x) | _ \<Rightarrow> v) c
                else c)
             (zip (dtypes d) (series d))\<rparr>"

text \<open>
  The texts of the source, as the UTF-8 bytes of the file:
  \<open>error_label\<close> is U+041E U+0448 U+0438 U+0431 U+043A U+0430,
  \<open>not_found_text\<close> is U+0422 U+0430 U+0431 U+043B U+0438 U+0446 U+0430, a space,
  U+043D U+0435, a space, U+043D U+0430 U+0439 U+0434 U+0435 U+043D U+0430, and
  \<open>action_prefix\<close> is U+0414 U+0435 U+0439 U+0441 U+0442 U+0432 U+0438 U+0435 followed by
  a colon and a space.
\<close>

definition error_label :: string where
  "error_label = [CHR 0xD0, CHR 0x9E, CHR 0xD1, CHR 0x88, CHR 0xD0, CHR 0xB8, CHR 0xD0, CHR 0xB1,
                  CHR 0xD0, CHR 0xBA, CHR 0xD0, CHR 0xB0]"

definition not_found_text :: string where
  "not_found_text = [CHR 0xD0, CHR 0xA2, CHR 0xD0, CHR 0xB0, CHR 0xD0, CHR 0xB1, CHR 0xD0, CHR 0xBB,
                     CHR 0xD0, CHR 0xB8, CHR 0xD1, CHR 0x86, CHR 0xD0, CHR 0xB0, CHR 0x20,
                     CHR 0xD0, CHR 0xBD, CHR 0xD0, CHR 0xB5, CHR 0x20,
                     CHR 0xD0, CHR 0xBD, CHR 0xD0, CHR 0xB0, CHR 0xD0, CHR 0xB9, CHR 0xD0, CHR 0xB4,
                     CHR 0xD0, CHR 0xB5, CHR 0xD0, CHR 0xBD, CHR 0xD0, CHR 0xB0]"

definition action_prefix :: string where
  "action_prefix = [CHR 0xD0, CHR 0x94, CHR 0xD0, CHR 0xB5, CHR 0xD0, CHR 0xB9, CHR 0xD1, CHR 0x81,
                    CHR 0xD1, CHR 0x82, CHR 0xD0, CHR 0xB2, CHR 0xD0, CHR 0xB8, CHR 0xD0, CHR 0xB5,
                    CHR 0x3A, CHR 0x20]"

text \<open>
  \<^verbatim>\<open>pd.DataFrame([[not_found_text]], columns=[error_label])\<close>: one row, labelled 0 by the
  default index, and one column of texts.
\<close>

definition not_found_frame :: "'f frame" where
  "not_found_frame =
     \<lparr>columns = [StrV error_label], index = [IntV 0], dtypes = [object],
      series = [[StrV not_found_text]]\<rparr>"

text \<open>
  The part of the application object that the statistics tab uses: the dictionary of
  tables, the model of the tab, the model the table view shows, and the log widget
  (\<open>None\<close> until \<^verbatim>\<open>set_log_widget\<close> is called, then its lines).
\<close>

record 'f DataApp =
  data_tables :: "string \<rightharpoonup> 'f frame"
  stat_model :: "'f PandasModel"
  stat_table_model :: "'f PandasModel"
  log_widget :: "string list option"

definition log :: "string \<Rightarrow> 'f DataApp \<Rightarrow> 'f DataApp" where
  "log message self =
     (case log_widget self of
        Some lines \<Rightarrow> self\<lparr>log_widget := Some (lines @ [message])\<rparr>
      | None \<Rightarrow> self)"

definition log_action ::
  "string \<Rightarrow> ('f DataApp \<Rightarrow> 'a \<times> 'f DataApp) \<Rightarrow> 'f DataApp \<Rightarrow> 'a \<times> 'f DataApp" where
  "log_action func_name func self = func (log (action_prefix @ func_name) self)"

definition get_statistics :: "'f float_ops \<Rightarrow> string \<Rightarrow> 'f DataApp \<Rightarrow> 'f frame result" where
  "get_statistics F table_name self =
     (case data_tables self table_name of
        Some d \<Rightarrow>
          (case describe F (select_dtypes_number d) of
             Inl e \<Rightarrow> Inl e
           | Inr desc \<Rightarrow> Inr (round_frame F 2 (transpose_frame F desc)))
      | None \<Rightarrow> Inr not_found_frame)"

text \<open>
  \<^verbatim>\<open>update_stat\<close> computes the statistics and then replaces the snapshot. The
  replacement is its two statements \<^verbatim>\<open>self.stat_model = PandasModel(df_stat)\<close> and
  \<^verbatim>\<open>self.stat_table.setModel(self.stat_model)\<close>, here \<open>replace_stat_model\<close>: a new model
  over \<^verbatim>\<open>df_stat\<close> takes the place of the model held so far, in the application and in the
  view. \<^verbatim>\<open>resizeColumnsToContents\<close> changes the layout of the view only and is left out.
\<close>

definition replace_stat_model :: "'f frame \<Rightarrow> 'f DataApp \<Rightarrow> unit result \<times> 'f DataApp" where
  "replace_stat_model df_stat self =
     (case PandasModel_init df_stat of
        Inl e \<Rightarrow> (Inl e, self)
      | Inr m \<Rightarrow> (Inr (), self\<lparr>stat_model := m, stat_table_model := m\<rparr>))"

definition update_stat :: "'f float_ops \<Rightarrow> string \<Rightarrow> 'f DataApp \<Rightarrow> unit result \<times> 'f DataApp" where
  "update_stat F table_name =
     log_action ''update_stat'' (\<lambda>self.
       case get_statistics F table_name self of
         Inl e \<Rightarrow> (Inl e, self)
       | Inr df_stat \<Rightarrow> replace_stat_model df_stat self)"

section \<open>Concrete frames\<close>

text \<open>
  In the concrete frames below integers stand in for floats; \<open>int_ops\<close> renders them as
  integers, rounds and converts to themselves and summarises a column by 0.
\<close>

definition int_ops :: "int float_ops" where
  "int_ops = \<lparr>float_str = str_int, summary = (\<lambda>s c. 0), float_round = (\<lambda>decimals x. x),
              float_of_int = (\<lambda>i. i)\<rparr>"

text \<open>Columns \<open>a\<close> and \<open>b\<close>, rows \<open>[1, 2]\<close> and \<open>[3, 4]\<close>.\<close>

definition two_by_two :: "int frame" where
  "two_by_two =
     \<lparr>columns = [StrV ''a'', StrV ''b''], index = [IntV 0, IntV 1],
      dtypes = [int64, int64], series = [[IntV 1, IntV 3], [IntV 2, IntV 4]]\<rparr>"

text \<open>Column \<open>b\<close> is shorter than column \<open>a\<close>.\<close>

definition ragged :: "int frame" where
  "ragged =
     \<lparr>columns = [StrV ''a'', StrV ''b''], index = [IntV 0, IntV 1],
      dtypes = [int64, int64], series = [[IntV 1, IntV 3], [IntV 2]]\<rparr>"

text \<open>A table whose only column is a text column.\<close>

definition names_only :: "int frame" where
  "names_only =
     \<lparr>columns = [StrV ''name''], index = [IntV 0], dtypes = [object], series = [[StrV ''x'']]\<rparr>"

text \<open>
  A table whose only column holds an integer beyond 64 bits, which pandas keeps as a
  Python integer in an \<^verbatim>\<open>object\<close> column.
\<close>

definition big_integers :: "int frame" where
  "big_integers =
     \<lparr>columns = [StrV ''n''], index = [IntV 0], dtypes = [object], series = [[IntV (2 ^ 70)]]\<rparr>"

text \<open>An application whose tab holds a model over \<open>two_by_two\<close>.\<close>

definition app_showing_two_by_two :: "int DataApp" where
  "app_showing_two_by_two =
     \<lparr>data_tables = [''t'' \<mapsto> two_by_two],
      stat_model = \<lparr>self_df = two_by_two\<rparr>,
      stat_table_model = \<lparr>self_df = two_by_two\<rparr>,
      log_widget = Some []\<rparr>"

definition app_with :: "int frame \<Rightarrow> int DataApp" where
  "app_with d =
     \<lparr>data_tables = [''t'' \<mapsto> d],
      stat_model = \<lparr>self_df = DataFrame_empty\<rparr>,
      stat_table_model = \<lparr>self_df = DataFrame_empty\<rparr>,
      log_widget = Some []\<rparr>"

section \<open>Row and column counts\<close>

text \<open>
  Claim C4. \<open>rowCount\<close> returns the number of rows of the held frame and \<open>columnCount\<close>
  the number of its columns; neither raises (the result is always \<open>Inr\<close>), and both give
  0 on the empty frame \<^verbatim>\<open>pd.DataFrame()\<close>. On a well-formed frame the row count is the
  length of every column and the column count is the number of stored columns.
\<close>

theorem rowCount_columnCount:
  fixes self :: "'f PandasModel"
  shows
  "fst (rowCount self) = Inr (int (length (index (self_df self)))) \<and>
   fst (columnCount self) = Inr (int (length (columns (self_df self)))) \<and>
   fst (rowCount \<lparr>self_df = DataFrame_empty :: 'f frame\<rparr>) = Inr 0 \<and>
   fst (columnCount \<lparr>self_df = DataFrame_empty :: 'f frame\<rparr>) = Inr 0 \<and>
   (well_formed (self_df self) \<longrightarrow>
      list_all (\<lambda>c. fst (rowCount self) = Inr (int (length c))) (series (self_df self)) \<and>
      fst (columnCount self) = Inr (int (length (series (self_df self)))))"
  by (simp add: rowCount_def columnCount_def shape_def DataFrame_empty_def
      well_formed_def list_all_iff)

theorem rowCount_columnCount_witness:
  "well_formed two_by_two \<and>
   fst (rowCount \<lparr>self_df = two_by_two\<rparr>) = Inr 2 \<and>
   fst (columnCount \<lparr>self_df = two_by_two\<rparr>) = Inr 2 \<and>
   list_all (\<lambda>c. fst (rowCount \<lparr>self_df = two_by_two\<rparr>) = Inr (int (length c))) (series two_by_two)"
  using rowCount_columnCount [of "\<lparr>self_df = two_by_two\<rparr>"]
  by (simp add: two_by_two_def well_formed_def)

section \<open>Indexes and positional reads\<close>

lemma isValid_createIndex: "isValid (createIndex r c) \<longleftrightarrow> 0 \<le> r \<and> 0 \<le> c"
  by (simp add: isValid_def createIndex_def)

lemma not_isValid_invalid: "\<not> isValid QModelIndex_invalid"
  by (simp add: isValid_def QModelIndex_invalid_def)

lemma rowCount_eq: "fst (rowCount self) = Inr n \<longleftrightarrow> n = int (length (index (self_df self)))"
  by (auto simp: rowCount_def shape_def)

lemma columnCount_eq: "fst (columnCount self) = Inr n \<longleftrightarrow> n = int (length (columns (self_df self)))"
  by (auto simp: columnCount_def shape_def)

lemma hasIndex_iff:
  "hasIndex r c self \<longleftrightarrow>
     0 \<le> r \<and> r < int (length (index (self_df self))) \<and>
     0 \<le> c \<and> c < int (length (columns (self_df self)))"
  by (auto simp: hasIndex_def rowCount_def columnCount_def shape_def)

lemma iloc_in_bounds:
  assumes "0 \<le> r" "r < int (length (index d))" "0 \<le> c" "c < int (length (columns d))"
  shows "iloc d r c = Inr (series d ! nat c ! nat r)"
  using assms by (simp add: iloc_def shape_def Let_def)

lemma iloc_beyond:
  assumes "r \<ge> int (length (index d)) \<or> c \<ge> int (length (columns d))"
  shows "iloc d r c = Inl IndexError"
  using assms by (auto simp: iloc_def shape_def Let_def)

lemma Index_getitem_outside:
  assumes "key \<ge> int (length labels) \<or> key < - int (length labels)"
  shows "Index_getitem labels key = Inl IndexError"
  using assms by (auto simp: Index_getitem_def Let_def)

lemma Index_getitem_negative:
  assumes "- int (length labels) \<le> key" "key < 0"
  shows "Index_getitem labels key = Inr (labels ! nat (key + int (length labels)))"
  using assms by (simp add: Index_getitem_def Let_def)

lemma Index_getitem_inside:
  assumes "0 \<le> key" "key < int (length labels)"
  shows "Index_getitem labels key = Inr (labels ! nat key)"
  using assms by (simp add: Index_getitem_def Let_def)

lemma data_invalid: "\<not> isValid idx \<Longrightarrow> fst (data F idx role self) = Inr None"
  by (simp add: data_def)

lemma data_valid:
  "isValid idx \<Longrightarrow>
   fst (data F idx role self) =
     (if role = DisplayRole
      then (case iloc (self_df self) (row idx) (column idx) of
              Inl e \<Rightarrow> Inl e | Inr v \<Rightarrow> Inr (Some (py_str F v)))
      else Inr None)"
  by (simp add: data_def split: sum.splits)

lemma str_int_digit: "0 \<le> i \<Longrightarrow> i < 10 \<Longrightarrow> str_int i = [digit_char (nat i)]"
  by (simp add: str_int_def str_nat.simps)

lemma str_int_examples:
  "str_int 0 = ''0''" "str_int 10 = ''10''" "str_int (- 305) = ''-305''" "str_int 2025 = ''2025''"
  by code_simp+

section \<open>Cell values\<close>

text \<open>
  Claim C1, as amended. An index with a negative row or column is invalid, and so is the
  index that \<open>model_index\<close> returns for a position outside the frame: for these \<open>data\<close>
  returns \<open>None\<close> and does not raise. A valid index whose row is at least \<open>rowCount()\<close> or
  whose column is at least \<open>columnCount()\<close> is not caught by the \<open>isValid\<close> guard: with
  the display role \<open>data\<close> raises \<^verbatim>\<open>IndexError\<close>, with any other role it returns \<open>None\<close>.
\<close>

theorem data_out_of_range:
  fixes self :: "'f PandasModel"
  shows
  "(row idx < 0 \<or> column idx < 0 \<longrightarrow> fst (data F idx role self) = Inr None) \<and>
   (\<not> hasIndex r c self \<longrightarrow> fst (data F (model_index r c self) role self) = Inr None) \<and>
   (isValid idx \<and> fst (rowCount self) = Inr nr \<and> fst (columnCount self) = Inr nc \<and>
    (row idx \<ge> nr \<or> column idx \<ge> nc) \<longrightarrow>
      fst (data F idx role self) = (if role = DisplayRole then Inl IndexError else Inr None))"
proof (intro conjI impI)
  assume "row idx < 0 \<or> column idx < 0"
  then have "\<not> isValid idx" by (auto simp: isValid_def)
  then show "fst (data F idx role self) = Inr None" by (rule data_invalid)
next
  assume "\<not> hasIndex r c self"
  then have "model_index r c self = QModelIndex_invalid" by (simp add: model_index_def)
  then show "fst (data F (model_index r c self) role self) = Inr None"
    by (simp add: data_invalid not_isValid_invalid)
next
  assume a: "isValid idx \<and> fst (rowCount self) = Inr nr \<and> fst (columnCount self) = Inr nc \<and>
    (row idx \<ge> nr \<or> column idx \<ge> nc)"
  then have "iloc (self_df self) (row idx) (column idx) = Inl IndexError"
    by (intro iloc_beyond) (auto simp: rowCount_eq columnCount_eq)
  with a show "fst (data F idx role self) = (if role = DisplayRole then Inl IndexError else Inr None)"
    by (simp add: data_valid)
qed

theorem data_out_of_range_witness:
  "fst (data int_ops (createIndex (- 1) 0) DisplayRole \<lparr>self_df = two_by_two\<rparr>) = Inr None \<and>
   \<not> hasIndex 5 0 \<lparr>self_df = two_by_two\<rparr> \<and>
   fst (data int_ops (model_index 5 0 \<lparr>self_df = two_by_two\<rparr>) DisplayRole \<lparr>self_df = two_by_two\<rparr>)
     = Inr None \<and>
   isValid (createIndex 0 2) \<and>
   fst (columnCount \<lparr>self_df = two_by_two\<rparr>) = Inr 2 \<and>
   fst (data int_ops (createIndex 0 2) DisplayRole \<lparr>self_df = two_by_two\<rparr>) = Inl IndexError \<and>
   fst (data int_ops (createIndex 0 2) EditRole \<lparr>self_df = two_by_two\<rparr>) = Inr None"
  using data_out_of_range [of "createIndex (- 1) 0" int_ops DisplayRole "\<lparr>self_df = two_by_two\<rparr>" 5 0 2 2]
    data_out_of_range [of "createIndex 0 2" int_ops DisplayRole "\<lparr>self_df = two_by_two\<rparr>" 5 0 2 2]
    data_out_of_range [of "createIndex 0 2" int_ops EditRole "\<lparr>self_df = two_by_two\<rparr>" 5 0 2 2]
  by (simp add: createIndex_def isValid_def hasIndex_iff rowCount_eq columnCount_eq two_by_two_def
      DisplayRole_def EditRole_def)

theorem data_out_of_range_counterexample:
  "fst (rowCount \<lparr>self_df = two_by_two\<rparr>) = Inr 2 \<and>
   isValid (createIndex 5 0) \<and>
   fst (data int_ops (createIndex 5 0) DisplayRole \<lparr>self_df = two_by_two\<rparr>) = Inl IndexError"
  by (simp add: rowCount_def shape_def two_by_two_def isValid_def createIndex_def data_def
      iloc_def Let_def)

text \<open>
  Claim C3. For a model constructed from a well-formed frame \<open>d\<close> and a position with
  \<open>0 \<le> r < rowCount()\<close> and \<open>0 \<le> c < columnCount()\<close>, \<open>data\<close> at the index of that position
  (default role) returns \<^verbatim>\<open>str\<close> of the value that \<open>d\<close> stores in row \<open>r\<close> of column \<open>c\<close>,
  and that value exists in \<open>d\<close>.
\<close>

theorem data_roundtrip:
  assumes "PandasModel_init d = Inr self" and "well_formed d"
    and "fst (rowCount self) = Inr nr" and "fst (columnCount self) = Inr nc"
    and "0 \<le> r" and "r < nr" and "0 \<le> c" and "c < nc"
  shows "fst (data F (model_index r c self) DisplayRole self)
           = Inr (Some (py_str F (series d ! nat c ! nat r))) \<and>
         nat c < length (series d) \<and> nat r < length (series d ! nat c)"
proof -
  from assms(1) have d: "self_df self = d" by (auto simp: PandasModel_init_def)
  from assms(3,4) d have nr: "nr = int (length (index d))" and nc: "nc = int (length (columns d))"
    by (simp_all add: rowCount_eq columnCount_eq)
  from assms(5-8) nr nc d have "hasIndex r c self" by (simp add: hasIndex_iff)
  then have idx: "model_index r c self = createIndex r c" by (simp add: model_index_def)
  have valid: "isValid (createIndex r c)" using assms(5,7) by (simp add: isValid_createIndex)
  have "iloc d r c = Inr (series d ! nat c ! nat r)"
    using assms(5-8) nr nc by (intro iloc_in_bounds) simp_all
  then have 1: "fst (data F (model_index r c self) DisplayRole self)
           = Inr (Some (py_str F (series d ! nat c ! nat r)))"
    using valid idx d by (simp add: data_valid createIndex_def)
  have 2: "nat c < length (series d)"
    using assms(2,7,8) nc by (simp add: well_formed_def)
  then have "series d ! nat c \<in> set (series d)" by simp
  with assms(2) have "length (series d ! nat c) = length (index d)"
    by (simp add: well_formed_def list_all_iff)
  then have 3: "nat r < length (series d ! nat c)" using assms(5,6) nr by simp
  from 1 2 3 show ?thesis by simp
qed

theorem data_roundtrip_witness:
  "PandasModel_init two_by_two = Inr \<lparr>self_df = two_by_two\<rparr> \<and> well_formed two_by_two \<and>
   fst (rowCount \<lparr>self_df = two_by_two\<rparr>) = Inr 2 \<and>
   fst (columnCount \<lparr>self_df = two_by_two\<rparr>) = Inr 2 \<and>
   fst (data int_ops (model_index 0 1 \<lparr>self_df = two_by_two\<rparr>) DisplayRole \<lparr>self_df = two_by_two\<rparr>)
     = Inr (Some ''2'')"
proof -
  have a: "PandasModel_init two_by_two = Inr \<lparr>self_df = two_by_two\<rparr>"
    by (simp add: PandasModel_init_def)
  have b: "well_formed two_by_two" by (simp add: well_formed_def two_by_two_def)
  have c: "fst (rowCount \<lparr>self_df = two_by_two\<rparr>) = Inr 2"
    by (simp add: rowCount_eq two_by_two_def)
  have d: "fst (columnCount \<lparr>self_df = two_by_two\<rparr>) = Inr 2"
    by (simp add: columnCount_eq two_by_two_def)
  have e: "py_str int_ops (series two_by_two ! nat 1 ! nat 0) = ''2''"
    by (simp add: two_by_two_def str_int_digit digit_char_def)
  from data_roundtrip [OF a b c d, of 0 1 int_ops] a b c d e show ?thesis by simp
qed

text \<open>
  Claim C9. At a valid index inside the frame, \<open>data\<close> returns the text of the cell when
  the role is the display role and \<open>None\<close> for every other role; \<open>headerData\<close> returns \<open>None\<close>
  for every role other than the display role.
\<close>

theorem display_role_only:
  assumes "fst (rowCount self) = Inr nr" and "fst (columnCount self) = Inr nc"
    and "0 \<le> r" and "r < nr" and "0 \<le> c" and "c < nc"
  shows "fst (data F (createIndex r c) role self)
           = (if role = DisplayRole
              then Inr (Some (py_str F (series (self_df self) ! nat c ! nat r)))
              else Inr None) \<and>
         (role \<noteq> DisplayRole \<longrightarrow> fst (headerData F section orientation role self) = Inr None)"
proof -
  from assms(1,2) have nr: "nr = int (length (index (self_df self)))"
    and nc: "nc = int (length (columns (self_df self)))"
    by (simp_all add: rowCount_eq columnCount_eq)
  have valid: "isValid (createIndex r c)" using assms(3,5) by (simp add: isValid_createIndex)
  have "iloc (self_df self) r c = Inr (series (self_df self) ! nat c ! nat r)"
    using assms(3-6) nr nc by (intro iloc_in_bounds) simp_all
  then have "fst (data F (createIndex r c) role self)
           = (if role = DisplayRole
              then Inr (Some (py_str F (series (self_df self) ! nat c ! nat r)))
              else Inr None)"
    using valid by (simp add: data_valid createIndex_def)
  moreover have "role \<noteq> DisplayRole \<longrightarrow> fst (headerData F section orientation role self) = Inr None"
    by (simp add: headerData_def)
  ultimately show ?thesis by simp
qed

theorem display_role_only_witness:
  "fst (rowCount \<lparr>self_df = two_by_two\<rparr>) = Inr 2 \<and>
   fst (columnCount \<lparr>self_df = two_by_two\<rparr>) = Inr 2 \<and>
   fst (data int_ops (createIndex 1 0) DisplayRole \<lparr>self_df = two_by_two\<rparr>) = Inr (Some ''3'') \<and>
   fst (data int_ops (createIndex 1 0) ToolTipRole \<lparr>self_df = two_by_two\<rparr>) = Inr None \<and>
   fst (headerData int_ops 0 Horizontal ToolTipRole \<lparr>self_df = two_by_two\<rparr>) = Inr None"
proof -
  have c: "fst (rowCount \<lparr>self_df = two_by_two\<rparr>) = Inr 2"
    by (simp add: rowCount_eq two_by_two_def)
  have d: "fst (columnCount \<lparr>self_df = two_by_two\<rparr>) = Inr 2"
    by (simp add: columnCount_eq two_by_two_def)
  have e: "py_str int_ops (series two_by_two ! nat 0 ! nat 1) = ''3''"
    by (simp add: two_by_two_def str_int_digit digit_char_def)
  have f: "ToolTipRole \<noteq> DisplayRole" by (simp add: ToolTipRole_def DisplayRole_def)
  from display_role_only [OF c d, of 1 0 int_ops DisplayRole 0 Horizontal]
    display_role_only [OF c d, of 1 0 int_ops ToolTipRole 0 Horizontal] c d e f
  show ?thesis by simp
qed

section \<open>Header labels\<close>

lemma headerData_Horizontal:
  "fst (headerData F section Horizontal DisplayRole self) =
     (case Index_getitem (columns (self_df self)) section of
        Inl e \<Rightarrow> Inl e | Inr l \<Rightarrow> Inr (Some (py_str F l)))"
  by (simp add: headerData_def split: sum.splits)

lemma headerData_Vertical:
  "fst (headerData F section Vertical DisplayRole self) =
     (case Index_getitem (index (self_df self)) section of
        Inl e \<Rightarrow> Inl e | Inr l \<Rightarrow> Inr (Some (py_str F l)))"
  by (simp add: headerData_def Horizontal_def Vertical_def split: sum.splits)

text \<open>
  Claim C2, as amended. \<open>headerData\<close> returns \<open>None\<close> and does not raise for every
  orientation other than the two of Qt and for every role other than the display role.
  With the display role and one of the two orientations it does no range check: a
  section outside \<open>[-n, n)\<close>, \<open>n\<close> the length of the axis, raises \<^verbatim>\<open>IndexError\<close>, and a
  negative section from \<open>-n\<close> on returns the label counted from the end of the axis.
\<close>

theorem headerData_out_of_range:
  fixes self :: "'f PandasModel"
  shows
  "(role \<noteq> DisplayRole \<or> (orientation \<noteq> Horizontal \<and> orientation \<noteq> Vertical) \<longrightarrow>
      fst (headerData F section orientation role self) = Inr None) \<and>
   (fst (columnCount self) = Inr nc \<and> (section \<ge> nc \<or> section < - nc) \<longrightarrow>
      fst (headerData F section Horizontal DisplayRole self) = Inl IndexError) \<and>
   (fst (rowCount self) = Inr nr \<and> (section \<ge> nr \<or> section < - nr) \<longrightarrow>
      fst (headerData F section Vertical DisplayRole self) = Inl IndexError) \<and>
   (fst (columnCount self) = Inr nc \<and> - nc \<le> section \<and> section < 0 \<longrightarrow>
      fst (headerData F section Horizontal DisplayRole self)
        = Inr (Some (py_str F (columns (self_df self) ! nat (section + nc))))) \<and>
   (fst (rowCount self) = Inr nr \<and> - nr \<le> section \<and> section < 0 \<longrightarrow>
      fst (headerData F section Vertical DisplayRole self)
        = Inr (Some (py_str F (index (self_df self) ! nat (section + nr)))))"
proof (intro conjI impI)
  assume "role \<noteq> DisplayRole \<or> (orientation \<noteq> Horizontal \<and> orientation \<noteq> Vertical)"
  then show "fst (headerData F section orientation role self) = Inr None"
    by (auto simp: headerData_def)
next
  assume "fst (columnCount self) = Inr nc \<and> (section \<ge> nc \<or> section < - nc)"
  then have "Index_getitem (columns (self_df self)) section = Inl IndexError"
    by (intro Index_getitem_outside) (auto simp: columnCount_eq)
  then show "fst (headerData F section Horizontal DisplayRole self) = Inl IndexError"
    by (simp add: headerData_Horizontal)
next
  assume "fst (rowCount self) = Inr nr \<and> (section \<ge> nr \<or> section < - nr)"
  then have "Index_getitem (index (self_df self)) section = Inl IndexError"
    by (intro Index_getitem_outside) (auto simp: rowCount_eq)
  then show "fst (headerData F section Vertical DisplayRole self) = Inl IndexError"
    by (simp add: headerData_Vertical)
next
  assume a: "fst (columnCount self) = Inr nc \<and> - nc \<le> section \<and> section < 0"
  then have nc: "nc = int (length (columns (self_df self)))" by (simp add: columnCount_eq)
  with a have "Index_getitem (columns (self_df self)) section
      = Inr (columns (self_df self) ! nat (section + nc))"
    by (simp add: Index_getitem_negative)
  then show "fst (headerData F section Horizontal DisplayRole self)
        = Inr (Some (py_str F (columns (self_df self) ! nat (section + nc))))"
    by (simp add: headerData_Horizontal)
next
  assume a: "fst (rowCount self) = Inr nr \<and> - nr \<le> section \<and> section < 0"
  then have nr: "nr = int (length (index (self_df self)))" by (simp add: rowCount_eq)
  with a have "Index_getitem (index (self_df self)) section
      = Inr (index (self_df self) ! nat (section + nr))"
    by (simp add: Index_getitem_negative)
  then show "fst (headerData F section Vertical DisplayRole self)
        = Inr (Some (py_str F (index (self_df self) ! nat (section + nr))))"
    by (simp add: headerData_Vertical)
qed

theorem headerData_out_of_range_witness:
  "fst (headerData int_ops 0 3 DisplayRole \<lparr>self_df = two_by_two\<rparr>) = Inr None \<and>
   fst (columnCount \<lparr>self_df = two_by_two\<rparr>) = Inr 2 \<and>
   fst (rowCount \<lparr>self_df = two_by_two\<rparr>) = Inr 2 \<and>
   fst (headerData int_ops 2 Horizontal DisplayRole \<lparr>self_df = two_by_two\<rparr>) = Inl IndexError \<and>
   fst (headerData int_ops 2 Vertical DisplayRole \<lparr>self_df = two_by_two\<rparr>) = Inl IndexError \<and>
   fst (headerData int_ops (- 2) Horizontal DisplayRole \<lparr>self_df = two_by_two\<rparr>) = Inr (Some ''a'') \<and>
   fst (headerData int_ops (- 2) Vertical DisplayRole \<lparr>self_df = two_by_two\<rparr>) = Inr (Some ''0'')"
proof -
  have c: "fst (columnCount \<lparr>self_df = two_by_two\<rparr>) = Inr 2"
    by (simp add: columnCount_eq two_by_two_def)
  have r: "fst (rowCount \<lparr>self_df = two_by_two\<rparr>) = Inr 2"
    by (simp add: rowCount_eq two_by_two_def)
  have o: "(3::int) \<noteq> Horizontal \<and> 3 \<noteq> Vertical" by (simp add: Horizontal_def Vertical_def)
  have l: "py_str int_ops (columns two_by_two ! nat (- 2 + 2)) = ''a''"
    "py_str int_ops (index two_by_two ! nat (- 2 + 2)) = ''0''"
    by (simp_all add: two_by_two_def str_int_digit digit_char_def)
  from headerData_out_of_range [of DisplayRole 3 int_ops 0 "\<lparr>self_df = two_by_two\<rparr>" 2 2]
    headerData_out_of_range [of DisplayRole 3 int_ops 2 "\<lparr>self_df = two_by_two\<rparr>" 2 2]
    headerData_out_of_range [of DisplayRole 3 int_ops "- 2" "\<lparr>self_df = two_by_two\<rparr>" 2 2]
    c r o l
  show ?thesis by simp
qed

theorem headerData_out_of_range_counterexample:
  "fst (columnCount \<lparr>self_df = two_by_two\<rparr>) = Inr 2 \<and>
   fst (headerData int_ops 5 Horizontal DisplayRole \<lparr>self_df = two_by_two\<rparr>) = Inl IndexError \<and>
   fst (headerData int_ops (- 1) Horizontal DisplayRole \<lparr>self_df = two_by_two\<rparr>) = Inr (Some ''b'')"
  by (simp add: columnCount_def shape_def two_by_two_def headerData_def Index_getitem_def Let_def)

section \<open>Construction\<close>

text \<open>
  Claim C5, as amended. \<^verbatim>\<open>PandasModel.__init__\<close> validates nothing and never fails: for
  every frame, with columns of one length or not, it returns the model that holds the
  frame as given.
\<close>

theorem PandasModel_init_total:
  "PandasModel_init d = Inr \<lparr>self_df = d\<rparr>"
  by (simp add: PandasModel_init_def)

theorem PandasModel_init_ragged_counterexample:
  "\<not> well_formed ragged \<and> PandasModel_init ragged = Inr \<lparr>self_df = ragged\<rparr>"
  by (simp add: well_formed_def ragged_def PandasModel_init_def)

section \<open>The statistics table\<close>

lemma get_statistics_log: "get_statistics F table_name (log message self) = get_statistics F table_name self"
  by (simp add: get_statistics_def log_def split: option.splits)

lemma replace_stat_model_eq:
  "replace_stat_model S self =
     (Inr (), self\<lparr>stat_model := \<lparr>self_df = S\<rparr>, stat_table_model := \<lparr>self_df = S\<rparr>\<rparr>)"
  by (simp add: replace_stat_model_def PandasModel_init_def)

lemma update_stat_replaces:
  assumes "get_statistics F table_name self = Inr S"
  shows "update_stat F table_name self
           = replace_stat_model S (log (action_prefix @ ''update_stat'') self)"
  using assms by (simp add: update_stat_def log_action_def get_statistics_log)

lemma update_stat_Inr:
  assumes "get_statistics F table_name self = Inr S"
  shows "update_stat F table_name self =
           (Inr (), (log (action_prefix @ ''update_stat'') self)
                       \<lparr>stat_model := \<lparr>self_df = S\<rparr>, stat_table_model := \<lparr>self_df = S\<rparr>\<rparr>)"
  by (simp add: update_stat_replaces [OF assms] replace_stat_model_eq)

lemma update_stat_Inl:
  assumes "get_statistics F table_name self = Inl e"
  shows "update_stat F table_name self = (Inl e, log (action_prefix @ ''update_stat'') self)"
  using assms by (simp add: update_stat_def log_action_def get_statistics_log)

lemma log_fields:
  "data_tables (log message self) = data_tables self"
  "stat_model (log message self) = stat_model self"
  "stat_table_model (log message self) = stat_table_model self"
  by (simp_all add: log_def split: option.splits)

lemma not_found_frame_shape: "shape not_found_frame = (1, 1)"
  by (simp add: shape_def not_found_frame_def)

lemma get_statistics_missing:
  "data_tables self table_name = None \<Longrightarrow> get_statistics F table_name self = Inr not_found_frame"
  by (simp add: get_statistics_def)

text \<open>
  Claim C6. The snapshot is replaced by the replacement step of \<^verbatim>\<open>update_stat\<close>,
  \<open>replace_stat_model\<close>. For every frame \<open>S\<close>, empty or not, and every application state
  before the step, whatever model it holds, the step does not fail and afterwards
  \<open>rowCount\<close> and \<open>columnCount\<close> of the model of the tab are the dimensions of \<open>S\<close>, and the
  view shows that model. \<^verbatim>\<open>update_stat\<close> itself runs the step on the frame that
  \<^verbatim>\<open>get_statistics\<close> returns, with the same result.
\<close>

theorem replace_stat_model_dimensions:
  fixes self :: "'f DataApp" and S :: "'f frame" and T :: "'f frame"
  shows
  "fst (replace_stat_model S self) = Inr () \<and>
   fst (rowCount (stat_model (snd (replace_stat_model S self)))) = Inr (fst (shape S)) \<and>
   fst (columnCount (stat_model (snd (replace_stat_model S self)))) = Inr (snd (shape S)) \<and>
   stat_table_model (snd (replace_stat_model S self))
     = stat_model (snd (replace_stat_model S self)) \<and>
   (get_statistics F table_name self = Inr T \<longrightarrow>
      fst (update_stat F table_name self) = Inr () \<and>
      fst (rowCount (stat_model (snd (update_stat F table_name self)))) = Inr (fst (shape T)) \<and>
      fst (columnCount (stat_model (snd (update_stat F table_name self)))) = Inr (snd (shape T)) \<and>
      stat_table_model (snd (update_stat F table_name self))
        = stat_model (snd (update_stat F table_name self)))"
proof (intro conjI impI)
  show "fst (replace_stat_model S self) = Inr ()"
    by (simp add: replace_stat_model_eq)
  show "fst (rowCount (stat_model (snd (replace_stat_model S self)))) = Inr (fst (shape S))"
    by (simp add: replace_stat_model_eq rowCount_def)
  show "fst (columnCount (stat_model (snd (replace_stat_model S self)))) = Inr (snd (shape S))"
    by (simp add: replace_stat_model_eq columnCount_def)
  show "stat_table_model (snd (replace_stat_model S self))
     = stat_model (snd (replace_stat_model S self))"
    by (simp add: replace_stat_model_eq)
next
  assume g: "get_statistics F table_name self = Inr T"
  show "fst (update_stat F table_name self) = Inr ()"
    by (simp add: update_stat_Inr [OF g])
  show "fst (rowCount (stat_model (snd (update_stat F table_name self)))) = Inr (fst (shape T))"
    by (simp add: update_stat_Inr [OF g] rowCount_def)
  show "fst (columnCount (stat_model (snd (update_stat F table_name self)))) = Inr (snd (shape T))"
    by (simp add: update_stat_Inr [OF g] columnCount_def)
  show "stat_table_model (snd (update_stat F table_name self))
        = stat_model (snd (update_stat F table_name self))"
    by (simp add: update_stat_Inr [OF g])
qed

theorem replace_stat_model_dimensions_witness:
  "fst (rowCount (stat_model app_showing_two_by_two)) = Inr 2 \<and>
   fst (columnCount (stat_model app_showing_two_by_two)) = Inr 2 \<and>
   fst (rowCount (stat_model (snd (replace_stat_model DataFrame_empty app_showing_two_by_two))))
     = Inr 0 \<and>
   fst (columnCount (stat_model (snd (replace_stat_model DataFrame_empty app_showing_two_by_two))))
     = Inr 0 \<and>
   fst (rowCount (stat_model (app_with two_by_two))) = Inr 0 \<and>
   fst (rowCount (stat_model (snd (replace_stat_model two_by_two (app_with two_by_two))))) = Inr 2 \<and>
   fst (columnCount (stat_model (snd (replace_stat_model two_by_two (app_with two_by_two)))))
     = Inr 2 \<and>
   get_statistics int_ops ''missing'' app_showing_two_by_two = Inr not_found_frame \<and>
   fst (rowCount (stat_model (snd (update_stat int_ops ''missing'' app_showing_two_by_two))))
     = Inr 1 \<and>
   fst (columnCount (stat_model (snd (update_stat int_ops ''missing'' app_showing_two_by_two))))
     = Inr 1"
proof -
  have g: "get_statistics int_ops ''missing'' app_showing_two_by_two = Inr not_found_frame"
    by (simp add: get_statistics_def app_showing_two_by_two_def)
  have p: "fst (rowCount (stat_model app_showing_two_by_two)) = Inr 2"
    "fst (columnCount (stat_model app_showing_two_by_two)) = Inr 2"
    "fst (rowCount (stat_model (app_with two_by_two))) = Inr 0"
    by (simp_all add: rowCount_eq columnCount_eq app_showing_two_by_two_def app_with_def
        two_by_two_def DataFrame_empty_def)
  have s: "shape (DataFrame_empty :: int frame) = (0, 0)" "shape two_by_two = (2, 2)"
    by (simp_all add: shape_def DataFrame_empty_def two_by_two_def)
  from replace_stat_model_dimensions
         [of DataFrame_empty app_showing_two_by_two int_ops "''missing''" not_found_frame]
    replace_stat_model_dimensions
         [of two_by_two "app_with two_by_two" int_ops "''missing''" not_found_frame]
    g p s not_found_frame_shape [where ?'a = int]
  show ?thesis by simp
qed

text \<open>
  Claim C7. Each query (\<open>rowCount\<close>, \<open>columnCount\<close>, \<open>data\<close>, \<open>headerData\<close>) leaves the
  model, and with it the frame it holds, as it was, whether it returns or raises.
  \<^verbatim>\<open>update_stat\<close> is the one place where the held snapshot changes: when
  \<^verbatim>\<open>get_statistics\<close> returns \<open>S\<close> the model of the tab becomes a model holding exactly \<open>S\<close>
  and the tables are untouched; when \<^verbatim>\<open>get_statistics\<close> raises, the model stays.
\<close>

theorem queries_keep_snapshot:
  fixes self :: "'f PandasModel" and app :: "'f DataApp"
  shows
  "snd (rowCount self) = self \<and>
   snd (columnCount self) = self \<and>
   snd (data F idx role self) = self \<and>
   snd (headerData F section orientation role self) = self \<and>
   (get_statistics F table_name app = Inr S \<longrightarrow>
      stat_model (snd (update_stat F table_name app)) = \<lparr>self_df = S\<rparr> \<and>
      data_tables (snd (update_stat F table_name app)) = data_tables app) \<and>
   (get_statistics F table_name app = Inl e \<longrightarrow>
      stat_model (snd (update_stat F table_name app)) = stat_model app \<and>
      data_tables (snd (update_stat F table_name app)) = data_tables app)"
proof (intro conjI impI)
  show "snd (rowCount self) = self" by (simp add: rowCount_def)
  show "snd (columnCount self) = self" by (simp add: columnCount_def)
  show "snd (data F idx role self) = self" by (simp add: data_def split: sum.splits)
  show "snd (headerData F section orientation role self) = self"
    by (simp add: headerData_def split: sum.splits)
next
  assume g: "get_statistics F table_name app = Inr S"
  show "stat_model (snd (update_stat F table_name app)) = \<lparr>self_df = S\<rparr>"
    by (simp add: update_stat_Inr [OF g])
  show "data_tables (snd (update_stat F table_name app)) = data_tables app"
    by (simp add: update_stat_Inr [OF g] log_fields)
next
  assume g: "get_statistics F table_name app = Inl e"
  show "stat_model (snd (update_stat F table_name app)) = stat_model app"
    by (simp add: update_stat_Inl [OF g] log_fields)
  show "data_tables (snd (update_stat F table_name app)) = data_tables app"
    by (simp add: update_stat_Inl [OF g] log_fields)
qed

theorem queries_keep_snapshot_witness:
  "snd (data int_ops (createIndex 5 0) DisplayRole \<lparr>self_df = two_by_two\<rparr>) = \<lparr>self_df = two_by_two\<rparr> \<and>
   get_statistics int_ops ''missing'' (app_with two_by_two) = Inr not_found_frame \<and>
   stat_model (snd (update_stat int_ops ''missing'' (app_with two_by_two)))
     = \<lparr>self_df = not_found_frame\<rparr> \<and>
   get_statistics int_ops ''t'' (app_with names_only) = Inl ValueError \<and>
   stat_model (snd (update_stat int_ops ''t'' (app_with names_only)))
     = \<lparr>self_df = DataFrame_empty\<rparr>"
proof -
  have g: "get_statistics int_ops ''missing'' (app_with two_by_two) = Inr not_found_frame"
    by (simp add: get_statistics_def app_with_def)
  have h: "get_statistics int_ops ''t'' (app_with names_only) = Inl ValueError"
    by (simp add: get_statistics_def app_with_def names_only_def describe_def
        select_dtypes_number_def)
  have m: "stat_model (app_with names_only) = \<lparr>self_df = DataFrame_empty\<rparr>"
    by (simp add: app_with_def)
  from queries_keep_snapshot [of "\<lparr>self_df = two_by_two\<rparr>" int_ops "createIndex 5 0" DisplayRole
      0 0 "''missing''" "app_with two_by_two" not_found_frame ValueError]
    queries_keep_snapshot [of "\<lparr>self_df = two_by_two\<rparr>" int_ops "createIndex 5 0" DisplayRole
      0 0 "''t''" "app_with names_only" not_found_frame ValueError]
    g h m
  show ?thesis by simp
qed

lemma select_dtypes_number_columns_empty:
  assumes "well_formed d" and "well_typed d"
  shows "columns (select_dtypes_number d) = [] \<longleftrightarrow> \<not> list_ex is_number (dtypes d)"
proof -
  from assms(2) have lt: "length (dtypes d) = length (series d)"
    by (simp add: well_typed_def list_all2_lengthD)
  with assms(1) have lc: "length (columns d) = length (zip (dtypes d) (series d))"
    by (simp add: well_formed_def)
  have "map fst (map snd (zip (columns d) (zip (dtypes d) (series d)))) = dtypes d"
    using lc lt by (simp add: map_snd_zip map_fst_zip)
  then have mid: "(\<lambda>p. fst (snd p)) ` set (zip (columns d) (zip (dtypes d) (series d)))
                    = set (dtypes d)"
    by (metis (no_types, lifting) image_cong image_image list.set_map)
  have "columns (select_dtypes_number d) = [] \<longleftrightarrow>
          (\<forall>p \<in> set (zip (columns d) (zip (dtypes d) (series d))). \<not> is_number (fst (snd p)))"
    by (auto simp: select_dtypes_number_def Let_def filter_empty_conv)
  also have "\<dots> \<longleftrightarrow>
          (\<forall>t \<in> (\<lambda>p. fst (snd p)) ` set (zip (columns d) (zip (dtypes d) (series d))).
              \<not> is_number t)"
    by auto
  finally show ?thesis by (simp add: mid list_ex_iff)
qed

lemma describe_Inr:
  "columns d \<noteq> [] \<Longrightarrow> \<exists>desc. describe F d = Inr desc"
  by (simp add: describe_def)

text \<open>
  Claim C10, as amended. For a name that is not a key of \<^verbatim>\<open>data_tables\<close>,
  \<^verbatim>\<open>get_statistics\<close> does not raise and returns the frame of one row and one column whose
  column is labelled \<open>error_label\<close> and whose cell is \<open>not_found_text\<close>. For a name whose
  table has at least one column of numeric dtype it returns the \<^verbatim>\<open>describe()\<close> summary
  of the numeric columns, transposed and rounded to 2 decimals. For a name whose table
  has no column of numeric dtype, \<^verbatim>\<open>describe()\<close> raises \<^verbatim>\<open>ValueError\<close> and
  \<^verbatim>\<open>get_statistics\<close> raises it too.
\<close>

theorem get_statistics_cases:
  fixes self :: "'f DataApp"
  shows
  "(data_tables self table_name = None \<longrightarrow>
      get_statistics F table_name self = Inr not_found_frame) \<and>
   shape (not_found_frame :: 'f frame) = (1, 1) \<and>
   columns (not_found_frame :: 'f frame) = [StrV error_label] \<and>
   iloc (not_found_frame :: 'f frame) 0 0 = Inr (StrV not_found_text) \<and>
   (data_tables self table_name = Some d \<and> well_formed d \<and> well_typed d \<and>
    list_ex is_number (dtypes d) \<longrightarrow>
      (\<exists>desc. describe F (select_dtypes_number d) = Inr desc \<and>
         get_statistics F table_name self = Inr (round_frame F 2 (transpose_frame F desc)))) \<and>
   (data_tables self table_name = Some d \<and> well_formed d \<and> well_typed d \<and>
    \<not> list_ex is_number (dtypes d) \<longrightarrow>
      get_statistics F table_name self = Inl ValueError)"
proof (intro conjI impI)
  assume "data_tables self table_name = None"
  then show "get_statistics F table_name self = Inr not_found_frame"
    by (rule get_statistics_missing)
next
  show "shape (not_found_frame :: 'f frame) = (1, 1)" by (rule not_found_frame_shape)
  show "columns (not_found_frame :: 'f frame) = [StrV error_label]"
    by (simp add: not_found_frame_def)
  show "iloc (not_found_frame :: 'f frame) 0 0 = Inr (StrV not_found_text)"
    by (simp add: iloc_def shape_def not_found_frame_def)
next
  assume a: "data_tables self table_name = Some d \<and> well_formed d \<and> well_typed d \<and>
    list_ex is_number (dtypes d)"
  then have "columns (select_dtypes_number d) \<noteq> []"
    by (simp add: select_dtypes_number_columns_empty)
  then obtain desc where desc: "describe F (select_dtypes_number d) = Inr desc"
    using describe_Inr by blast
  with a have "get_statistics F table_name self = Inr (round_frame F 2 (transpose_frame F desc))"
    by (simp add: get_statistics_def)
  with desc show "\<exists>desc. describe F (select_dtypes_number d) = Inr desc \<and>
         get_statistics F table_name self = Inr (round_frame F 2 (transpose_frame F desc))"
    by blast
next
  assume a: "data_tables self table_name = Some d \<and> well_formed d \<and> well_typed d \<and>
    \<not> list_ex is_number (dtypes d)"
  then have "columns (select_dtypes_number d) = []"
    by (simp add: select_dtypes_number_columns_empty)
  then have "describe F (select_dtypes_number d) = Inl ValueError" by (simp add: describe_def)
  with a show "get_statistics F table_name self = Inl ValueError"
    by (simp add: get_statistics_def)
qed

theorem get_statistics_cases_witness:
  "data_tables (app_with two_by_two) ''missing'' = None \<and>
   get_statistics int_ops ''missing'' (app_with two_by_two) = Inr not_found_frame \<and>
   data_tables (app_with two_by_two) ''t'' = Some two_by_two \<and>
   well_formed two_by_two \<and> well_typed two_by_two \<and> list_ex is_number (dtypes two_by_two) \<and>
   (\<exists>desc. describe int_ops (select_dtypes_number two_by_two) = Inr desc \<and>
      get_statistics int_ops ''t'' (app_with two_by_two)
        = Inr (round_frame int_ops 2 (transpose_frame int_ops desc))) \<and>
   data_tables (app_with big_integers) ''t'' = Some big_integers \<and>
   well_formed big_integers \<and> well_typed big_integers \<and>
   \<not> list_ex is_number (dtypes big_integers) \<and>
   get_statistics int_ops ''t'' (app_with big_integers) = Inl ValueError"
proof -
  have a: "data_tables (app_with two_by_two) ''missing'' = None"
    "data_tables (app_with two_by_two) ''t'' = Some two_by_two"
    "data_tables (app_with big_integers) ''t'' = Some big_integers"
    by (simp_all add: app_with_def)
  have b: "well_formed two_by_two" "well_typed two_by_two" "list_ex is_number (dtypes two_by_two)"
    by (simp_all add: well_formed_def well_typed_def two_by_two_def)
  have c: "well_formed big_integers" "well_typed big_integers"
    "\<not> list_ex is_number (dtypes big_integers)"
    by (simp_all add: well_formed_def well_typed_def big_integers_def)
  from get_statistics_cases [of "app_with two_by_two" "''missing''" int_ops two_by_two]
    get_statistics_cases [of "app_with two_by_two" "''t''" int_ops two_by_two]
    get_statistics_cases [of "app_with big_integers" "''t''" int_ops big_integers]
    a b c
  show ?thesis by simp
qed

theorem get_statistics_cases_counterexample:
  "data_tables (app_with names_only) ''t'' = Some names_only \<and>
   well_formed names_only \<and> well_typed names_only \<and>
   get_statistics int_ops ''t'' (app_with names_only) = Inl ValueError"
  by (simp add: get_statistics_def app_with_def names_only_def describe_def
      select_dtypes_number_def well_formed_def well_typed_def)

lemma get_statistics_two_by_two:
  "get_statistics int_ops ''t'' (app_with two_by_two) =
     Inr \<lparr>columns = map StrV stat_names,
          index = [StrV ''a'', StrV ''b''],
          dtypes = replicate 8 float64,
          series = replicate 8 [FloatV 0, FloatV 0]\<rparr>"
  by (simp add: get_statistics_def app_with_def two_by_two_def describe_def
      select_dtypes_number_def transpose_frame_def common_dtype_def round_frame_def
      stat_names_def int_ops_def upt_conv_Cons numeral_eq_Suc)

lemma get_statistics_mixed:
  "get_statistics int_ops ''t''
     (app_with \<lparr>columns = [StrV ''name'', StrV ''n'', StrV ''big''], index = [IntV 0],
                dtypes = [object, int64, object],
                series = [[StrV ''x''], [IntV 7], [IntV (2 ^ 70)]]\<rparr>) =
     Inr \<lparr>columns = map StrV stat_names,
          index = [StrV ''n''],
          dtypes = replicate 8 float64,
          series = replicate 8 [FloatV 0]\<rparr>"
  by (simp add: get_statistics_def app_with_def describe_def
      select_dtypes_number_def transpose_frame_def common_dtype_def round_frame_def
      stat_names_def int_ops_def upt_conv_Cons numeral_eq_Suc)

end
